theory Spec2Isabelle
  imports Complex_Main "HOL-Library.AList"
begin

section \<open>Python values\<close>

text \<open>
  The decision of the oracle is the result of \<^verbatim>\<open>json.loads\<close>: a JSON value. Numbers
  (Python \<^verbatim>\<open>int\<close> and \<^verbatim>\<open>float\<close>) are modelled by the real number they denote; the
  rounding of float arithmetic and the special values \<^verbatim>\<open>inf\<close> and \<^verbatim>\<open>nan\<close> are outside
  this model. A dict is an association list in insertion order.
\<close>

datatype pyval =
    PyNone
  | PyBool bool
  | PyNum real
  | PyStr string
  | PyList "pyval list"
  | PyDict "(string \<times> pyval) list"

type_synonym pydict = "(string \<times> pyval) list"

datatype py_error =
    TypeError
  | AttributeError
  | KeyError string
  | SystemExit int

text \<open>\<^verbatim>\<open>d.get(k, default)\<close>\<close>

definition dict_get :: "pydict \<Rightarrow> string \<Rightarrow> pyval \<Rightarrow> pyval" where
  "dict_get d k dflt = (case map_of d k of None \<Rightarrow> dflt | Some v \<Rightarrow> v)"

text \<open>\<^verbatim>\<open>d[k]\<close>, which raises \<^verbatim>\<open>KeyError\<close> on a missing key\<close>

definition dict_item :: "pydict \<Rightarrow> string \<Rightarrow> py_error + pyval" where
  "dict_item d k = (case map_of d k of None \<Rightarrow> Inl (KeyError k) | Some v \<Rightarrow> Inr v)"

text \<open>Truth value of an object, as \<^verbatim>\<open>if x:\<close> and \<^verbatim>\<open>not x\<close> test it\<close>

fun truthy :: "pyval \<Rightarrow> bool" where
  "truthy PyNone = False"
| "truthy (PyBool b) = b"
| "truthy (PyNum x) = (x \<noteq> 0)"
| "truthy (PyStr s) = (s \<noteq> [])"
| "truthy (PyList l) = (l \<noteq> [])"
| "truthy (PyDict d) = (d \<noteq> [])"

text \<open>
  \<^verbatim>\<open>v < t\<close> for a number \<open>t\<close>: defined on numbers and booleans (\<^verbatim>\<open>True\<close> is 1),
  \<^verbatim>\<open>TypeError\<close> on \<^verbatim>\<open>None\<close>, strings, lists and dicts.
\<close>

fun py_lt :: "pyval \<Rightarrow> real \<Rightarrow> py_error + bool" where
  "py_lt (PyNum x) t = Inr (x < t)"
| "py_lt (PyBool b) t = Inr ((if b then 1 else 0) < t)"
| "py_lt v t = Inl TypeError"

text \<open>\<^verbatim>\<open>a // b\<close> on numbers with \<open>b \<noteq> 0\<close>, and \<^verbatim>\<open>int(x)\<close>, which truncates towards zero\<close>

definition py_floordiv :: "real \<Rightarrow> real \<Rightarrow> real" where
  "py_floordiv a b = of_int \<lfloor>a / b\<rfloor>"

definition py_int :: "real \<Rightarrow> int" where
  "py_int x = (if 0 \<le> x then \<lfloor>x\<rfloor> else \<lceil>x\<rceil>)"


section \<open>RiskManager (risk\_manager.py)\<close>

record risk_manager =
  max_position_size :: real
  stop_loss_pct :: real
  take_profit_pct :: real
  min_confidence_threshold :: real
  max_trades_per_day :: int
  max_daily_loss_pct :: real
  leverage_on_intraday :: real
  trades_today :: int
  daily_pnl :: real
  is_trading_halted :: bool

text \<open>
  \<^verbatim>\<open>RiskManager.__init__\<close> with the defaults of the \<^verbatim>\<open>config.get\<close> calls; the state
  tracking fields start at 0, 0.0 and False.
\<close>

definition init_risk_manager :: "pydict \<Rightarrow> real \<Rightarrow> risk_manager" where
  "init_risk_manager config leverage =
     \<lparr> max_position_size =
         (case dict_get config ''MAX_POSITION_SIZE'' (PyNum 15000) of PyNum x \<Rightarrow> x | _ \<Rightarrow> 15000),
       stop_loss_pct =
         (case dict_get config ''STOP_LOSS_PCT'' (PyNum 0.005) of PyNum x \<Rightarrow> x | _ \<Rightarrow> 0.005),
       take_profit_pct =
         (case dict_get config ''TAKE_PROFIT_PCT'' (PyNum 0.01) of PyNum x \<Rightarrow> x | _ \<Rightarrow> 0.01),
       min_confidence_threshold =
         (case dict_get config ''MIN_CONFIDENCE_THRESHOLD'' (PyNum 0.75) of PyNum x \<Rightarrow> x | _ \<Rightarrow> 0.75),
       max_trades_per_day =
         (case dict_get config ''MAX_TRADES_PER_DAY'' (PyNum 20) of PyNum x \<Rightarrow> \<lfloor>x\<rfloor> | _ \<Rightarrow> 20),
       max_daily_loss_pct =
         (case dict_get config ''MAX_DAILY_LOSS_PCT'' (PyNum 0.02) of PyNum x \<Rightarrow> x | _ \<Rightarrow> 0.02),
       leverage_on_intraday = leverage,
       trades_today = 0,
       daily_pnl = 0,
       is_trading_halted = False \<rparr>"

text \<open>
  \<^verbatim>\<open>validate_decision(self, llm_decision, portfolio, current_price)\<close>. The portfolio is
  what \<^verbatim>\<open>get_user_fund_margin\<close> returned: a dict or \<^verbatim>\<open>None\<close>, and
  \<^verbatim>\<open>portfolio.get\<close> on \<^verbatim>\<open>None\<close> raises before any rule is looked at. The result is
  the exception raised, or the returned bool with the risk manager after the call. Every
  exception is raised before \<^verbatim>\<open>self.trades_today += 1\<close>.
\<close>

definition validate_decision ::
  "risk_manager \<Rightarrow> pydict \<Rightarrow> pydict option \<Rightarrow> pyval \<Rightarrow> py_error + (bool \<times> risk_manager)"
where
  "validate_decision self llm_decision portfolio current_price =
     (let action = dict_get llm_decision ''action'' PyNone;
          confidence = dict_get llm_decision ''confidence_score'' (PyNum 0);
          quantity = dict_get llm_decision ''quantity'' (PyNum 0)
      in case portfolio of
           None \<Rightarrow> Inl AttributeError
         | Some pf \<Rightarrow>
             (let available_margin = dict_get pf ''available_margin'' (PyNum 0)
              in if action = PyStr ''HOLD'' then Inr (False, self)
                 else if is_trading_halted self then Inr (False, self)
                 else if trades_today self \<ge> max_trades_per_day self then Inr (False, self)
                 else (case py_lt confidence (min_confidence_threshold self) of
                         Inl e \<Rightarrow> Inl e
                       | Inr True \<Rightarrow> Inr (False, self)
                       | Inr False \<Rightarrow>
                           if action = PyStr ''SELL'' then Inr (True, self)
                           else Inr (True, self\<lparr>trades_today := trades_today self + 1\<rparr>))))"

text \<open>\<^verbatim>\<open>calculate_quantity(self, price)\<close>: the returned int and the risk manager after the call\<close>

definition calculate_quantity :: "risk_manager \<Rightarrow> real \<Rightarrow> int \<times> risk_manager" where
  "calculate_quantity self price =
     (if price \<le> 0 then (0, self)
      else (py_int (py_floordiv (max_position_size self) price), self))"

text \<open>\<^verbatim>\<open>update_pnl(self, pnl, starting_capital)\<close>\<close>

definition update_pnl :: "risk_manager \<Rightarrow> real \<Rightarrow> real \<Rightarrow> risk_manager" where
  "update_pnl self pnl starting_capital =
     (let self1 = self\<lparr>daily_pnl := daily_pnl self + pnl\<rparr>;
          max_loss_amount = starting_capital * max_daily_loss_pct self1
      in if daily_pnl self1 < - max_loss_amount
         then self1\<lparr>is_trading_halted := True\<rparr>
         else self1)"

text \<open>
  The public methods of the risk manager as calls, and the risk manager after a sequence
  of them. A call of \<^verbatim>\<open>validate_decision\<close> that raises leaves the object as it was.
\<close>

datatype risk_call =
    ValidateDecision pydict "pydict option" pyval
  | CalculateQuantity real
  | UpdatePnl real real

fun risk_step :: "risk_manager \<Rightarrow> risk_call \<Rightarrow> risk_manager" where
  "risk_step self (ValidateDecision d pf cp) =
     (case validate_decision self d pf cp of Inl e \<Rightarrow> self | Inr (ok, self') \<Rightarrow> self')"
| "risk_step self (CalculateQuantity price) = snd (calculate_quantity self price)"
| "risk_step self (UpdatePnl pnl starting_capital) = update_pnl self pnl starting_capital"

definition risk_run :: "risk_manager \<Rightarrow> risk_call list \<Rightarrow> risk_manager" where
  "risk_run self calls = foldl risk_step self calls"


section \<open>TradingAgent (trading\_agent.py)\<close>

text \<open>
  The agent works through collaborators: the brokerage client, the oracle, the database.
  A \<open>client\<close> holds what the calls on one brokerage client (and the oracle calls made
  on its behalf) return during a cycle; the calls the agent makes are recorded, in
  order, in the field \<open>calls\<close> of the agent.
\<close>

record instrument =
  info_instrument_key :: string
  info_trading_symbol :: string
  info_name :: string

record position =
  pos_instrument_token :: string
  pos_quantity :: int
  pos_product :: string

text \<open>
  What the loop of \<^verbatim>\<open>make_decision\<close> iterates over: the instrument dicts of a list, or,
  when \<^verbatim>\<open>get_instrument_info_from_stock\<close> returned one dict, the keys of that dict.
\<close>

datatype item = InstrumentInfo instrument | DictKey string

record client =
  get_user_fund_margin :: "pydict option"
  get_positions :: "position list option"
  get_instrument_info_from_instrument_key :: "string \<Rightarrow> instrument option"
  get_instrument_info_from_stock :: "instrument option"
  auto_pick_instrument_to_trade :: "instrument list"
  generate_decision :: "instrument \<Rightarrow> pyval option"
  generate_decision_for_position_present :: "instrument \<Rightarrow> pyval option"

datatype call =
    PlaceOrder pyval pyval string pyval pyval string string pyval pyval
  | ExitAllPositions
  | AutoPickInstrumentToTrade
  | GetInstrumentInfoFromStock
  | GenerateDecision instrument
  | GenerateDecisionForPositionPresent instrument
  | SaveLlmDecision "pyval option"

text \<open>A \<^verbatim>\<open>threading.Timer\<close>: started and waiting, cancelled, or fired\<close>

datatype timer = Started | Cancelled | Fired

record agent =
  risk_manager :: risk_manager
  auto_pick_stock :: bool
  market_close_time :: nat
  decision_timer :: "timer option"
  is_eod_squaring_off :: bool
  calls :: "call list"

text \<open>\<^verbatim>\<open>if self.decision_timer: self.decision_timer.cancel()\<close>\<close>

definition cancel :: "timer option \<Rightarrow> timer option" where
  "cancel t = (case t of Some Started \<Rightarrow> Some Cancelled | _ \<Rightarrow> t)"

definition start_decision_timer :: "agent \<Rightarrow> agent" where
  "start_decision_timer self =
     (let self1 = self\<lparr>decision_timer := cancel (decision_timer self)\<rparr>
      in if \<not> is_eod_squaring_off self1
         then self1\<lparr>decision_timer := Some Started\<rparr>
         else self1)"

text \<open>\<^verbatim>\<open>stop\<close> ends in \<^verbatim>\<open>sys.exit(0)\<close>, which raises \<^verbatim>\<open>SystemExit\<close>\<close>

definition stop :: "agent \<Rightarrow> py_error option \<times> agent" where
  "stop self = (Some (SystemExit 0), self\<lparr>decision_timer := cancel (decision_timer self)\<rparr>)"

definition square_off_all_positions :: "agent \<Rightarrow> client list \<Rightarrow> py_error option \<times> agent" where
  "square_off_all_positions self upstox_clients =
     (let self1 = self\<lparr>is_eod_squaring_off := True\<rparr>;
          self2 = self1\<lparr>decision_timer := cancel (decision_timer self1)\<rparr>;
          self3 = self2\<lparr>calls := calls self2 @ map (\<lambda>c. ExitAllPositions) upstox_clients\<rparr>
      in stop self3)"

text \<open>
  \<^verbatim>\<open>get_portfolio_positions\<close>: all positions, and the dict of the open ones by
  instrument token. Assigning to a key that the dict has keeps the key's place.
  \<^verbatim>\<open>get_positions\<close> catches what the brokerage raises and returns \<^verbatim>\<open>None\<close>, so the
  handler of this method is not reached.
\<close>

definition get_portfolio_positions ::
  "client \<Rightarrow> position list option \<times> (string \<times> position) list"
where
  "get_portfolio_positions upstox_client =
     (let all_positions_data = get_positions upstox_client
      in (all_positions_data,
          case all_positions_data of
            None \<Rightarrow> []
          | Some ps \<Rightarrow>
              foldl (\<lambda>open_positions_dic pos.
                       if pos_quantity pos \<noteq> 0 \<and> pos_product pos = ''I''
                       then AList.update (pos_instrument_token pos) pos open_positions_dic
                       else open_positions_dic) [] ps))"

definition get_instruments_to_trade :: "agent \<Rightarrow> client list \<Rightarrow> item list \<times> agent" where
  "get_instruments_to_trade self upstox_clients =
     (let upstox_client = hd upstox_clients
      in if auto_pick_stock self
         then (map InstrumentInfo (auto_pick_instrument_to_trade upstox_client),
               self\<lparr>calls := calls self @ [AutoPickInstrumentToTrade]\<rparr>)
         else ((case get_instrument_info_from_stock upstox_client of
                  None \<Rightarrow> []
                | Some info \<Rightarrow> map DictKey [''instrument_key'', ''trading_symbol'', ''name'']),
               self\<lparr>calls := calls self @ [GetInstrumentInfoFromStock]\<rparr>))"

text \<open>
  Lines 123 to 135 of \<^verbatim>\<open>make_decision\<close>: \<open>position_present\<close>, the instruments of
  the cycle, and the agent after the calls made.
\<close>

definition select_instruments ::
  "agent \<Rightarrow> client list \<Rightarrow> client \<Rightarrow> bool \<times> item list \<times> agent"
where
  "select_instruments self upstox_clients upstox_client =
     (let (all_positions, open_positions) = get_portfolio_positions upstox_client
      in if open_positions = []
         then (let (instruments_to_trade, self1) = get_instruments_to_trade self upstox_clients
               in (False, instruments_to_trade, self1))
         else (True,
               map InstrumentInfo
                 (List.map_filter (get_instrument_info_from_instrument_key upstox_client)
                    (map fst open_positions)),
               self))"

text \<open>\<^verbatim>\<open>x or default\<close>\<close>

definition py_or :: "pyval \<Rightarrow> pyval \<Rightarrow> pyval" where
  "py_or x dflt = (if truthy x then x else dflt)"

definition place_order ::
  "agent \<Rightarrow> pyval \<Rightarrow> pyval \<Rightarrow> string \<Rightarrow> pyval \<Rightarrow> pyval \<Rightarrow> string \<Rightarrow> string \<Rightarrow> pyval \<Rightarrow> pyval \<Rightarrow> agent"
where
  "place_order self instrument_key quantity transaction_type order_type price product validity
     stop_loss take_profit =
     self\<lparr>calls := calls self @
       [PlaceOrder instrument_key quantity transaction_type order_type price product validity
          stop_loss take_profit]\<rparr>"

definition execute_buy ::
  "agent \<Rightarrow> pyval \<Rightarrow> pyval \<Rightarrow> pyval \<Rightarrow> pyval \<Rightarrow> pyval \<Rightarrow> pyval \<Rightarrow> agent"
where
  "execute_buy self instrument_key quantity price order_type stop_loss take_profit =
     (if \<not> truthy price then self
      else place_order self instrument_key quantity ''BUY'' order_type price ''I'' ''DAY''
             stop_loss take_profit)"

definition execute_sell ::
  "agent \<Rightarrow> pyval \<Rightarrow> pyval \<Rightarrow> pyval \<Rightarrow> pyval \<Rightarrow> pyval \<Rightarrow> pyval \<Rightarrow> agent"
where
  "execute_sell self instrument_key quantity price order_type stop_loss take_profit =
     (if \<not> truthy price then self
      else place_order self instrument_key quantity ''SELL'' order_type price ''I'' ''DAY''
             stop_loss take_profit)"

definition execute_trade :: "agent \<Rightarrow> pydict \<Rightarrow> pyval \<Rightarrow> pyval \<Rightarrow> py_error option \<times> agent" where
  "execute_trade self decision price quantity =
     (case dict_item decision ''instrument_key'' of
        Inl e \<Rightarrow> (Some e, self)
      | Inr instrument \<Rightarrow>
     (case dict_item decision ''action'' of
        Inl e \<Rightarrow> (Some e, self)
      | Inr action \<Rightarrow>
     (case dict_item decision ''order_type'' of
        Inl e \<Rightarrow> (Some e, self)
      | Inr order_type \<Rightarrow>
          (let stop_loss = py_or (dict_get decision ''stop_loss'' PyNone) (PyNum 0);
               take_profit = py_or (dict_get decision ''take_profit'' PyNone) (PyNum 0)
           in if action = PyStr ''BUY''
              then (None, execute_buy self instrument quantity price order_type stop_loss take_profit)
              else if action = PyStr ''SELL''
              then (None, execute_sell self instrument quantity price order_type stop_loss take_profit)
              else (None, self)))))"

text \<open>
  Lines 187 to 200 of \<^verbatim>\<open>make_decision\<close>, for the value \<open>llm_decision\<close> found under
  \<^verbatim>\<open>'response'\<close>. The test of line 187 only logs and ends in \<^verbatim>\<open>pass\<close>, so control
  reaches \<^verbatim>\<open>llm_decision.get\<close> whatever it found. On a value that is no dict, line 187
  raises \<^verbatim>\<open>TypeError\<close> when \<^verbatim>\<open>'action' not in llm_decision\<close> is evaluated on a number
  that is not zero or on \<^verbatim>\<open>True\<close>, and line 191 raises \<^verbatim>\<open>AttributeError\<close> otherwise.
\<close>

fun non_dict_error :: "pyval \<Rightarrow> py_error" where
  "non_dict_error (PyNum x) = (if x \<noteq> 0 then TypeError else AttributeError)"
| "non_dict_error (PyBool b) = (if b then TypeError else AttributeError)"
| "non_dict_error v = AttributeError"

definition handle_decision ::
  "agent \<Rightarrow> pydict option \<Rightarrow> pyval \<Rightarrow> py_error option \<times> agent"
where
  "handle_decision self portfolio_margin llm_decision =
     (case llm_decision of
        PyDict d \<Rightarrow>
          (let action = dict_get d ''action'' PyNone;
               instrument_key = dict_get d ''instrument_key'' PyNone;
               current_price = dict_get d ''current_price'' (PyNum 0)
           in if truthy llm_decision
              then (case validate_decision (risk_manager self) d portfolio_margin current_price of
                      Inl e \<Rightarrow> (Some e, self)
                    | Inr (approved, rm) \<Rightarrow>
                        (let self1 = self\<lparr>risk_manager := rm\<rparr>
                         in if approved \<and> truthy current_price
                            then (let quantity = dict_get d ''quantity'' (PyNum 0)
                                  in execute_trade self1 d current_price quantity)
                            else (None, self1)))
              else (None, self))
      | v \<Rightarrow> (Some (non_dict_error v), self))"

text \<open>
  One pass of the loop over \<open>instruments_to_trade\<close> (lines 139 to 203). The quote, the
  candles, the technical summary, the news and the charts only feed the oracle and are part
  of what \<open>generate_decision\<close> stands for. Indexing a \<^verbatim>\<open>str\<close> with
  \<^verbatim>\<open>'trading_symbol'\<close> raises \<^verbatim>\<open>TypeError\<close>, and so does \<^verbatim>\<open>llm_json['response']\<close> when
  the oracle returned \<^verbatim>\<open>None\<close>. The first component is the exception that left the loop
  body, if any.
\<close>

definition process_instrument ::
  "agent \<Rightarrow> client \<Rightarrow> bool \<Rightarrow> item \<Rightarrow> py_error option \<times> agent"
where
  "process_instrument self upstox_client position_present instrument_to_trade =
     (case instrument_to_trade of
        DictKey k \<Rightarrow> (Some TypeError, self)
      | InstrumentInfo info \<Rightarrow>
          (let portfolio_margin = get_user_fund_margin upstox_client;
               (llm_json, self1) =
                 (if \<not> position_present
                  then (generate_decision upstox_client info,
                        self\<lparr>calls := calls self @ [GenerateDecision info]\<rparr>)
                  else (generate_decision_for_position_present upstox_client info,
                        self\<lparr>calls := calls self @ [GenerateDecisionForPositionPresent info]\<rparr>));
               self2 = self1\<lparr>calls := calls self1 @ [SaveLlmDecision llm_json]\<rparr>
           in case llm_json of
                None \<Rightarrow> (Some TypeError, self2)
              | Some llm_decision \<Rightarrow> handle_decision self2 portfolio_margin llm_decision))"

fun run_instruments ::
  "agent \<Rightarrow> client \<Rightarrow> bool \<Rightarrow> item list \<Rightarrow> py_error option \<times> agent"
where
  "run_instruments self upstox_client position_present [] = (None, self)"
| "run_instruments self upstox_client position_present (instrument_to_trade # rest) =
     (case process_instrument self upstox_client position_present instrument_to_trade of
        (Some e, self1) \<Rightarrow> (Some e, self1)
      | (None, self1) \<Rightarrow> run_instruments self1 upstox_client position_present rest)"

text \<open>The loop over \<^verbatim>\<open>self.upstox_clients\<close> (line 122)\<close>

fun run_clients :: "agent \<Rightarrow> client list \<Rightarrow> client list \<Rightarrow> py_error option \<times> agent" where
  "run_clients self upstox_clients [] = (None, self)"
| "run_clients self upstox_clients (upstox_client # rest) =
     (let (position_present, instruments_to_trade, self1) =
            select_instruments self upstox_clients upstox_client
      in case run_instruments self1 upstox_client position_present instruments_to_trade of
           (Some e, self2) \<Rightarrow> (Some e, self2)
         | (None, self2) \<Rightarrow> run_clients self2 upstox_clients rest)"

text \<open>
  \<^verbatim>\<open>make_decision\<close>, called at the time of day \<open>now\<close> (in microseconds since midnight,
  as \<open>market_close_time\<close>). An exception leaves the method before line 209, where the timer
  is started again.
\<close>

definition make_decision :: "agent \<Rightarrow> nat \<Rightarrow> client list \<Rightarrow> py_error option \<times> agent" where
  "make_decision self now upstox_clients =
     (if now \<ge> market_close_time self
      then (if \<not> is_eod_squaring_off self
            then square_off_all_positions self upstox_clients
            else (None, self))
      else (case run_clients self upstox_clients upstox_clients of
              (Some e, self1) \<Rightarrow> (Some e, self1)
            | (None, self1) \<Rightarrow> (None, start_decision_timer self1)))"

text \<open>
  What can happen to the agent: a method is called, or the timer that is waiting fires
  and runs \<^verbatim>\<open>make_decision\<close> on its thread. An exception ends the call (or the thread)
  and leaves the agent as it was when raised.
\<close>

datatype event =
    MakeDecision nat "client list"
  | TimerFires nat "client list"
  | StartDecisionTimer
  | SquareOffAllPositions "client list"
  | Stop

fun agent_step :: "agent \<Rightarrow> event \<Rightarrow> agent" where
  "agent_step self (MakeDecision now cs) = snd (make_decision self now cs)"
| "agent_step self (TimerFires now cs) =
     (if decision_timer self = Some Started
      then snd (make_decision (self\<lparr>decision_timer := Some Fired\<rparr>) now cs)
      else self)"
| "agent_step self StartDecisionTimer = start_decision_timer self"
| "agent_step self (SquareOffAllPositions cs) = snd (square_off_all_positions self cs)"
| "agent_step self Stop = snd (stop self)"

definition agent_run :: "agent \<Rightarrow> event list \<Rightarrow> agent" where
  "agent_run self events = foldl agent_step self events"


section \<open>The configuration of config.py\<close>

definition RISK_CONFIG :: pydict where
  "RISK_CONFIG =
     [(''MAX_PORTFOLIO_EXPOSURE'', PyNum 100000),
      (''MAX_POSITION_SIZE'', PyNum 25000),
      (''STOP_LOSS_PCT'', PyNum 0.02),
      (''TAKE_PROFIT_PCT'', PyNum 0.05),
      (''MIN_CONFIDENCE_THRESHOLD'', PyNum 0.75),
      (''MAX_TRADES_PER_DAY'', PyNum 20),
      (''MAX_DAILY_LOSS_PCT'', PyNum 0.02),
      (''RISK_PERCENTAGE_FOR_SINGLE_TRADE'', PyNum 5)]"

text \<open>\<^verbatim>\<open>RiskManager(RISK_CONFIG, AGENT_CONFIG)\<close>, with \<^verbatim>\<open>LEVERAGE_ON_INTRADAY\<close> 5\<close>

definition configured_risk_manager :: risk_manager where
  "configured_risk_manager = init_risk_manager RISK_CONFIG 5"

text \<open>
  \<^verbatim>\<open>TradingAgent.__init__\<close> with \<^verbatim>\<open>AGENT_CONFIG\<close>: auto-pick on, market close at 14:55
  (in microseconds since midnight), no timer yet.
\<close>

definition configured_agent :: agent where
  "configured_agent =
     \<lparr> risk_manager = configured_risk_manager,
       auto_pick_stock = True,
       market_close_time = 53700000000,
       decision_timer = None,
       is_eod_squaring_off = False,
       calls = [] \<rparr>"


section \<open>Sample instruments, decisions and brokerage clients\<close>

text \<open>Two rows of the instrument table, and decisions as the oracle returns them\<close>

definition RELIANCE :: instrument where
  "RELIANCE = \<lparr> info_instrument_key = ''NSE_EQ|INE002A01018'',
                info_trading_symbol = ''RELIANCE'',
                info_name = ''RELIANCE INDUSTRIES LTD'' \<rparr>"

definition TCS :: instrument where
  "TCS = \<lparr> info_instrument_key = ''NSE_EQ|INE467B01029'',
           info_trading_symbol = ''TCS'',
           info_name = ''TATA CONSULTANCY SERV LT'' \<rparr>"

definition buy_decision :: pydict where
  "buy_decision =
     [(''thought'', PyStr ''momentum above VWAP''),
      (''action'', PyStr ''BUY''),
      (''instrument_key'', PyStr ''NSE_EQ|INE467B01029''),
      (''confidence_score'', PyNum 0.86),
      (''quantity'', PyNum 1),
      (''order_type'', PyStr ''MARKET''),
      (''stop_loss'', PyNum 952.5),
      (''take_profit'', PyNum 962),
      (''current_price'', PyNum 953.5)]"

definition decision_without_action :: pydict where
  "decision_without_action =
     [(''thought'', PyStr ''momentum above VWAP''),
      (''instrument_key'', PyStr ''NSE_EQ|INE002A01018''),
      (''confidence_score'', PyNum 0.86),
      (''quantity'', PyNum 1),
      (''order_type'', PyStr ''MARKET''),
      (''current_price'', PyNum 1400)]"

definition buy_decision_without_price :: pydict where
  "buy_decision_without_price =
     [(''action'', PyStr ''BUY''),
      (''instrument_key'', PyStr ''NSE_EQ|INE002A01018''),
      (''confidence_score'', PyNum 0.86),
      (''quantity'', PyNum 1),
      (''order_type'', PyStr ''MARKET'')]"

text \<open>
  A brokerage client without positions, for which auto-pick selects both instruments and
  the oracle answers as given; and one that holds positions.
\<close>

definition flat_client :: "(instrument \<Rightarrow> pyval option) \<Rightarrow> client" where
  "flat_client oracle =
     \<lparr> get_user_fund_margin = Some [(''available_margin'', PyNum 50000)],
       get_positions = Some [],
       get_instrument_info_from_instrument_key = (\<lambda>k. None),
       get_instrument_info_from_stock = None,
       auto_pick_instrument_to_trade = [RELIANCE, TCS],
       generate_decision = oracle,
       generate_decision_for_position_present = (\<lambda>info. None) \<rparr>"

definition holding_client :: client where
  "holding_client =
     \<lparr> get_user_fund_margin = Some [(''available_margin'', PyNum 50000)],
       get_positions = Some
         [\<lparr> pos_instrument_token = ''NSE_EQ|INE467B01029'', pos_quantity = 10, pos_product = ''I'' \<rparr>,
          \<lparr> pos_instrument_token = ''NSE_EQ|INE002A01018'', pos_quantity = 0, pos_product = ''I'' \<rparr>,
          \<lparr> pos_instrument_token = ''NSE_EQ|INE009A01021'', pos_quantity = 4, pos_product = ''D'' \<rparr>,
          \<lparr> pos_instrument_token = ''NSE_EQ|INE000000000'', pos_quantity = - 3, pos_product = ''I'' \<rparr>],
       get_instrument_info_from_instrument_key =
         (\<lambda>k. if k = ''NSE_EQ|INE467B01029'' then Some TCS
              else if k = ''NSE_EQ|INE002A01018'' then Some RELIANCE else None),
       get_instrument_info_from_stock = None,
       auto_pick_instrument_to_trade = [RELIANCE],
       generate_decision = (\<lambda>info. None),
       generate_decision_for_position_present = (\<lambda>info. None) \<rparr>"


section \<open>The state of the scheduler\<close>

text \<open>
  Two agents agree on the scheduler's fields, which the loop over the instruments never
  writes; and the state the agent is in after the end-of-day square-off: the flag is set
  and no timer is waiting.
\<close>

definition same_schedule :: "agent \<Rightarrow> agent \<Rightarrow> bool" where
  "same_schedule a b \<longleftrightarrow>
     is_eod_squaring_off b = is_eod_squaring_off a \<and> decision_timer b = decision_timer a
     \<and> market_close_time b = market_close_time a \<and> auto_pick_stock b = auto_pick_stock a"

definition latched :: "agent \<Rightarrow> bool" where
  "latched self \<longleftrightarrow> is_eod_squaring_off self \<and> decision_timer self \<noteq> Some Started"


section \<open>Properties of the risk manager\<close>

lemma configured_risk_manager_eq:
  "configured_risk_manager =
     \<lparr> max_position_size = 25000, stop_loss_pct = 0.02, take_profit_pct = 0.05,
       min_confidence_threshold = 0.75, max_trades_per_day = 20, max_daily_loss_pct = 0.02,
       leverage_on_intraday = 5, trades_today = 0, daily_pnl = 0, is_trading_halted = False \<rparr>"
  by (simp add: configured_risk_manager_def init_risk_manager_def RISK_CONFIG_def dict_get_def)

lemma py_int_of_int: "py_int (of_int n) = n"
  by (simp add: py_int_def)

lemma update_pnl_halted: "is_trading_halted self \<Longrightarrow> is_trading_halted (update_pnl self pnl cap)"
  by (simp add: update_pnl_def Let_def)

lemma validate_decision_state:
  "validate_decision self d pf cp = Inr (ok, self') \<Longrightarrow>
     self' = self \<or> self' = self\<lparr>trades_today := trades_today self + 1\<rparr>"
  by (auto simp: validate_decision_def Let_def split: option.splits if_splits sum.splits bool.splits)

lemma risk_step_halted: "is_trading_halted self \<Longrightarrow> is_trading_halted (risk_step self c)"
proof (cases c)
  case (ValidateDecision d pf cp)
  assume h: "is_trading_halted self"
  show ?thesis
  proof (cases "validate_decision self d pf cp")
    case (Inl e)
    with h ValidateDecision show ?thesis by simp
  next
    case (Inr r)
    obtain ok self' where r: "r = (ok, self')" by (cases r)
    from validate_decision_state [of self d pf cp ok self'] Inr r h
    have "is_trading_halted self'" by auto
    with ValidateDecision Inr r show ?thesis by simp
  qed
next
  case (CalculateQuantity price)
  assume "is_trading_halted self"
  with CalculateQuantity show ?thesis by (simp add: calculate_quantity_def)
next
  case (UpdatePnl pnl cap)
  assume "is_trading_halted self"
  with UpdatePnl show ?thesis by (simp add: update_pnl_halted)
qed

lemma risk_run_halted: "is_trading_halted self \<Longrightarrow> is_trading_halted (risk_run self cs)"
  unfolding risk_run_def
  by (induction cs arbitrary: self) (simp_all add: risk_step_halted)

text \<open>
  C1. With a portfolio dict, \<open>validate_decision\<close> goes through its rules in one fixed
  order and returns at the first that applies: a HOLD is rejected, whatever the state; a
  halted day rejects what is not a HOLD; with the trade count at the cap everything else is
  rejected, a SELL included; a numeric confidence below the threshold is rejected; and
  with all of that passed a SELL is approved with \<open>trades_today\<close> as it was, and a BUY
  is approved with \<open>trades_today\<close> one higher. Every rejection leaves the risk manager
  unchanged.
\<close>

theorem validate_decision_gate_order:
   "(dict_get llm_decision ''action'' PyNone = PyStr ''HOLD'' \<longrightarrow>
       validate_decision self llm_decision (Some pf) cp = Inr (False, self))
  \<and> (dict_get llm_decision ''action'' PyNone \<noteq> PyStr ''HOLD'' \<and> is_trading_halted self \<longrightarrow>
       validate_decision self llm_decision (Some pf) cp = Inr (False, self))
  \<and> (dict_get llm_decision ''action'' PyNone \<noteq> PyStr ''HOLD'' \<and> \<not> is_trading_halted self
       \<and> trades_today self \<ge> max_trades_per_day self \<longrightarrow>
       validate_decision self llm_decision (Some pf) cp = Inr (False, self))
  \<and> (dict_get llm_decision ''action'' PyNone \<noteq> PyStr ''HOLD'' \<and> \<not> is_trading_halted self
       \<and> trades_today self < max_trades_per_day self
       \<and> dict_get llm_decision ''confidence_score'' (PyNum 0) = PyNum c
       \<and> c < min_confidence_threshold self \<longrightarrow>
       validate_decision self llm_decision (Some pf) cp = Inr (False, self))
  \<and> (dict_get llm_decision ''action'' PyNone = PyStr ''SELL'' \<and> \<not> is_trading_halted self
       \<and> trades_today self < max_trades_per_day self
       \<and> dict_get llm_decision ''confidence_score'' (PyNum 0) = PyNum c
       \<and> c \<ge> min_confidence_threshold self \<longrightarrow>
       validate_decision self llm_decision (Some pf) cp = Inr (True, self))
  \<and> (dict_get llm_decision ''action'' PyNone = PyStr ''BUY'' \<and> \<not> is_trading_halted self
       \<and> trades_today self < max_trades_per_day self
       \<and> dict_get llm_decision ''confidence_score'' (PyNum 0) = PyNum c
       \<and> c \<ge> min_confidence_threshold self \<longrightarrow>
       validate_decision self llm_decision (Some pf) cp =
         Inr (True, self\<lparr>trades_today := trades_today self + 1\<rparr>))"
  by (simp add: validate_decision_def Let_def)

theorem validate_decision_gate_order_witness:
  "validate_decision configured_risk_manager
     [(''action'', PyStr ''HOLD''), (''confidence_score'', PyNum 0.9)] (Some []) (PyNum 100)
     = Inr (False, configured_risk_manager)
 \<and> validate_decision (configured_risk_manager\<lparr>is_trading_halted := True\<rparr>)
     [(''action'', PyStr ''BUY''), (''confidence_score'', PyNum 0.9)] (Some []) (PyNum 100)
     = Inr (False, configured_risk_manager\<lparr>is_trading_halted := True\<rparr>)
 \<and> validate_decision (configured_risk_manager\<lparr>trades_today := 20\<rparr>)
     [(''action'', PyStr ''SELL''), (''confidence_score'', PyNum 0.9)] (Some []) (PyNum 100)
     = Inr (False, configured_risk_manager\<lparr>trades_today := 20\<rparr>)
 \<and> validate_decision configured_risk_manager
     [(''action'', PyStr ''BUY''), (''confidence_score'', PyNum 0.5)] (Some []) (PyNum 100)
     = Inr (False, configured_risk_manager)
 \<and> validate_decision configured_risk_manager
     [(''action'', PyStr ''SELL''), (''confidence_score'', PyNum 0.9)] (Some []) (PyNum 100)
     = Inr (True, configured_risk_manager)
 \<and> validate_decision configured_risk_manager
     [(''action'', PyStr ''BUY''), (''confidence_score'', PyNum 0.9)] (Some []) (PyNum 100)
     = Inr (True, configured_risk_manager\<lparr>trades_today := 1\<rparr>)"
  using
    validate_decision_gate_order [where self = configured_risk_manager and pf = "[]"
      and cp = "PyNum 100" and c = "0.9"
      and llm_decision = "[(''action'', PyStr ''HOLD''), (''confidence_score'', PyNum 0.9)]"]
    validate_decision_gate_order [where self = "configured_risk_manager\<lparr>is_trading_halted := True\<rparr>"
      and pf = "[]" and cp = "PyNum 100" and c = "0.9"
      and llm_decision = "[(''action'', PyStr ''BUY''), (''confidence_score'', PyNum 0.9)]"]
    validate_decision_gate_order [where self = "configured_risk_manager\<lparr>trades_today := 20\<rparr>"
      and pf = "[]" and cp = "PyNum 100" and c = "0.9"
      and llm_decision = "[(''action'', PyStr ''SELL''), (''confidence_score'', PyNum 0.9)]"]
    validate_decision_gate_order [where self = configured_risk_manager and pf = "[]"
      and cp = "PyNum 100" and c = "0.5"
      and llm_decision = "[(''action'', PyStr ''BUY''), (''confidence_score'', PyNum 0.5)]"]
    validate_decision_gate_order [where self = configured_risk_manager and pf = "[]"
      and cp = "PyNum 100" and c = "0.9"
      and llm_decision = "[(''action'', PyStr ''SELL''), (''confidence_score'', PyNum 0.9)]"]
    validate_decision_gate_order [where self = configured_risk_manager and pf = "[]"
      and cp = "PyNum 100" and c = "0.9"
      and llm_decision = "[(''action'', PyStr ''BUY''), (''confidence_score'', PyNum 0.9)]"]
  by (simp add: dict_get_def configured_risk_manager_eq)

text \<open>
  C2. \<open>update_pnl\<close> adds \<open>pnl\<close> to \<open>daily_pnl\<close>, and \<open>is_trading_halted\<close> is true
  afterwards exactly when it was true before or the new \<open>daily_pnl\<close> is strictly below
  \<open>- (starting_capital * max_daily_loss_pct)\<close>; nothing else changes. Once
  \<open>is_trading_halted\<close> is true it stays true through every later sequence of calls of
  the risk manager's methods, \<open>update_pnl\<close> with a positive \<open>pnl\<close> among them.
\<close>

theorem update_pnl_circuit_breaker:
  "update_pnl self pnl starting_capital =
     self\<lparr>daily_pnl := daily_pnl self + pnl,
          is_trading_halted :=
            (is_trading_halted self
             \<or> daily_pnl self + pnl < - (starting_capital * max_daily_loss_pct self))\<rparr>
   \<and> (is_trading_halted self \<longrightarrow> is_trading_halted (risk_run self later_calls))"
  by (simp add: update_pnl_def Let_def risk_run_halted)

theorem update_pnl_circuit_breaker_witness:
  "is_trading_halted (update_pnl configured_risk_manager (- 2500) 100000)
   \<and> is_trading_halted
       (risk_run (update_pnl configured_risk_manager (- 2500) 100000)
          [UpdatePnl (- 1500) 100000, UpdatePnl 9000 100000])
   \<and> daily_pnl
       (risk_run (update_pnl configured_risk_manager (- 2500) 100000)
          [UpdatePnl (- 1500) 100000, UpdatePnl 9000 100000]) = 5000"
  using update_pnl_circuit_breaker [of configured_risk_manager "- 2500" 100000
          "[UpdatePnl (- 1500) 100000, UpdatePnl 9000 100000]"]
        update_pnl_circuit_breaker [of "update_pnl configured_risk_manager (- 2500) 100000"
          0 0 "[UpdatePnl (- 1500) 100000, UpdatePnl 9000 100000]"]
  by (simp add: configured_risk_manager_eq risk_run_def update_pnl_def)

text \<open>
  C3. The code at a halted day: a SELL with confidence 0.9 (threshold 0.75) and no trade
  counted yet (cap 20) is rejected by the rule on \<open>is_trading_halted\<close>, which is looked
  at before the action.
\<close>

theorem halted_rejects_sell:
  "is_trading_halted (configured_risk_manager\<lparr>is_trading_halted := True\<rparr>)
   \<and> trades_today (configured_risk_manager\<lparr>is_trading_halted := True\<rparr>)
       < max_trades_per_day (configured_risk_manager\<lparr>is_trading_halted := True\<rparr>)
   \<and> min_confidence_threshold (configured_risk_manager\<lparr>is_trading_halted := True\<rparr>) \<le> 0.9
   \<and> validate_decision (configured_risk_manager\<lparr>is_trading_halted := True\<rparr>)
       [(''action'', PyStr ''SELL''), (''confidence_score'', PyNum 0.9)]
       (Some [(''available_margin'', PyNum 50000)]) (PyNum 100)
     = Inr (False, configured_risk_manager\<lparr>is_trading_halted := True\<rparr>)"
  by (simp add: configured_risk_manager_eq validate_decision_def dict_get_def)

text \<open>
  C7. \<open>calculate_quantity\<close> returns the floor of \<open>max_position_size / price\<close> for a
  positive price and 0 for a price that is zero or negative, and the risk manager after
  the call is the one before it.
\<close>

theorem calculate_quantity_floor:
  "(0 < price \<longrightarrow> fst (calculate_quantity self price) = \<lfloor>max_position_size self / price\<rfloor>)
   \<and> (price \<le> 0 \<longrightarrow> fst (calculate_quantity self price) = 0)
   \<and> snd (calculate_quantity self price) = self"
  by (simp add: calculate_quantity_def py_floordiv_def py_int_of_int)

theorem calculate_quantity_floor_witness:
  "fst (calculate_quantity configured_risk_manager 7) = 3571
   \<and> fst (calculate_quantity configured_risk_manager 0) = 0
   \<and> fst (calculate_quantity configured_risk_manager (- 3)) = 0
   \<and> snd (calculate_quantity configured_risk_manager 7) = configured_risk_manager"
  using calculate_quantity_floor [of 7 configured_risk_manager]
        calculate_quantity_floor [of 0 configured_risk_manager]
        calculate_quantity_floor [of "- 3" configured_risk_manager]
  by (simp add: configured_risk_manager_eq)

text \<open>
  C8. When \<open>validate_decision\<close> returns False, the risk manager after the call is the
  one before it, so the same call again returns False again and changes nothing again.
\<close>

theorem validate_decision_rejection_idempotent:
  "validate_decision self d pf cp = Inr (False, self') \<Longrightarrow>
     self' = self \<and> validate_decision self' d pf cp = Inr (False, self')"
  using validate_decision_state [of self d pf cp False self']
  by (auto simp: validate_decision_def Let_def split: option.splits if_splits sum.splits bool.splits)

theorem validate_decision_rejection_idempotent_witness:
  "validate_decision configured_risk_manager
     [(''action'', PyStr ''BUY''), (''confidence_score'', PyNum 0.5)] (Some []) (PyNum 100)
     = Inr (False, configured_risk_manager)"
proof -
  have h: "validate_decision configured_risk_manager
     [(''action'', PyStr ''BUY''), (''confidence_score'', PyNum 0.5)] (Some []) (PyNum 100)
     = Inr (False, configured_risk_manager)"
    by (simp add: configured_risk_manager_eq validate_decision_def dict_get_def)
  from validate_decision_rejection_idempotent [OF h] show ?thesis by simp
qed

text \<open>
  C9. The last branch of \<open>validate_decision\<close> takes every action that is neither HOLD
  nor SELL: an unknown string, or \<open>None\<close> when the field is missing. When the day is
  not halted, the trade count is below the cap and the confidence is not below the
  threshold, the call returns True and \<open>trades_today\<close> is one higher.
\<close>

theorem validate_decision_catch_all:
  assumes "dict_get d ''action'' PyNone \<noteq> PyStr ''HOLD''"
      and "dict_get d ''action'' PyNone \<noteq> PyStr ''SELL''"
      and "\<not> is_trading_halted self"
      and "trades_today self < max_trades_per_day self"
      and "py_lt (dict_get d ''confidence_score'' (PyNum 0)) (min_confidence_threshold self) = Inr False"
  shows "validate_decision self d (Some pf) cp
           = Inr (True, self\<lparr>trades_today := trades_today self + 1\<rparr>)"
  using assms by (simp add: validate_decision_def Let_def)

theorem validate_decision_catch_all_witness:
  "validate_decision configured_risk_manager
     [(''action'', PyStr ''SHORT''), (''confidence_score'', PyNum 0.9)] (Some []) (PyNum 100)
     = Inr (True, configured_risk_manager\<lparr>trades_today := 1\<rparr>)
   \<and> map_of [(''confidence_score'', PyNum 0.9)] ''action'' = None
   \<and> validate_decision configured_risk_manager
     [(''confidence_score'', PyNum 0.9)] (Some []) (PyNum 100)
     = Inr (True, configured_risk_manager\<lparr>trades_today := 1\<rparr>)"
proof -
  let ?d1 = "[(''action'', PyStr ''SHORT''), (''confidence_score'', PyNum 0.9)]"
  let ?d2 = "[(''confidence_score'', PyNum 0.9)]"
  have a1: "dict_get ?d1 ''action'' PyNone \<noteq> PyStr ''HOLD''"
   and a2: "dict_get ?d1 ''action'' PyNone \<noteq> PyStr ''SELL''"
   and b1: "dict_get ?d2 ''action'' PyNone \<noteq> PyStr ''HOLD''"
   and b2: "dict_get ?d2 ''action'' PyNone \<noteq> PyStr ''SELL''"
    by (simp_all add: dict_get_def)
  have h: "\<not> is_trading_halted configured_risk_manager"
    "trades_today configured_risk_manager < max_trades_per_day configured_risk_manager"
    by (simp_all add: configured_risk_manager_eq)
  have c1: "py_lt (dict_get ?d1 ''confidence_score'' (PyNum 0))
              (min_confidence_threshold configured_risk_manager) = Inr False"
   and c2: "py_lt (dict_get ?d2 ''confidence_score'' (PyNum 0))
              (min_confidence_threshold configured_risk_manager) = Inr False"
    by (simp_all add: dict_get_def configured_risk_manager_eq)
  from validate_decision_catch_all [OF a1 a2 h c1, of "[]" "PyNum 100"]
       validate_decision_catch_all [OF b1 b2 h c2, of "[]" "PyNum 100"]
  show ?thesis by (simp add: configured_risk_manager_eq)
qed


section \<open>Properties of the decision cycle\<close>

lemma cancel_not_started [simp]: "cancel t \<noteq> Some Started"
  by (simp add: cancel_def split: option.splits timer.splits)

lemma cancel_idem [simp]: "cancel (cancel t) = cancel t"
  by (simp add: cancel_def split: option.splits timer.splits)

lemma execute_trade_schedule: "same_schedule self (snd (execute_trade self d p q))"
  by (simp add: execute_trade_def execute_buy_def execute_sell_def place_order_def
        same_schedule_def Let_def split: sum.splits)

lemma handle_decision_schedule: "same_schedule self (snd (handle_decision self pm v))"
proof (cases v)
  case (PyDict d)
  show ?thesis
  proof (cases "validate_decision (risk_manager self) d pm (dict_get d ''current_price'' (PyNum 0))")
    case (Inl e)
    with PyDict show ?thesis by (simp add: handle_decision_def same_schedule_def Let_def)
  next
    case (Inr r)
    obtain ok rm where r: "r = (ok, rm)" by (cases r)
    from execute_trade_schedule [of "self\<lparr>risk_manager := rm\<rparr>" d]
    show ?thesis using PyDict Inr r
      by (simp add: handle_decision_def same_schedule_def Let_def)
  qed
qed (simp_all add: handle_decision_def same_schedule_def)

lemma process_instrument_schedule:
  "same_schedule self (snd (process_instrument self c pp it))"
proof (cases it)
  case (DictKey k)
  then show ?thesis by (simp add: process_instrument_def same_schedule_def)
next
  case (InstrumentInfo info)
  let ?s1 = "self\<lparr>calls := calls self @ [GenerateDecision info]\<rparr>"
  let ?s2 = "self\<lparr>calls := calls self @ [GenerateDecisionForPositionPresent info]\<rparr>"
  show ?thesis
  proof (cases pp)
    case True
    show ?thesis
    proof (cases "generate_decision_for_position_present c info")
      case None
      with True InstrumentInfo show ?thesis
        by (simp add: process_instrument_def same_schedule_def Let_def)
    next
      case (Some v)
      from handle_decision_schedule
        [of "?s2\<lparr>calls := calls ?s2 @ [SaveLlmDecision (Some v)]\<rparr>" "get_user_fund_margin c" v]
      show ?thesis using True InstrumentInfo Some
        by (simp add: process_instrument_def same_schedule_def Let_def)
    qed
  next
    case False
    show ?thesis
    proof (cases "generate_decision c info")
      case None
      with False InstrumentInfo show ?thesis
        by (simp add: process_instrument_def same_schedule_def Let_def)
    next
      case (Some v)
      from handle_decision_schedule
        [of "?s1\<lparr>calls := calls ?s1 @ [SaveLlmDecision (Some v)]\<rparr>" "get_user_fund_margin c" v]
      show ?thesis using False InstrumentInfo Some
        by (simp add: process_instrument_def same_schedule_def Let_def)
    qed
  qed
qed

lemma same_schedule_trans: "same_schedule a b \<Longrightarrow> same_schedule b c \<Longrightarrow> same_schedule a c"
  by (simp add: same_schedule_def)

lemma same_schedule_refl: "same_schedule a a"
  by (simp add: same_schedule_def)

lemma run_instruments_schedule:
  "same_schedule self (snd (run_instruments self c pp its))"
proof (induction its arbitrary: self)
  case Nil
  show ?case by (simp add: same_schedule_refl)
next
  case (Cons it its)
  obtain e s1 where p: "process_instrument self c pp it = (e, s1)"
    by (cases "process_instrument self c pp it")
  from process_instrument_schedule [of self c pp it] p have s: "same_schedule self s1" by simp
  show ?case
  proof (cases e)
    case None
    with p s Cons.IH [of s1] show ?thesis by (auto intro: same_schedule_trans)
  next
    case (Some x)
    with p s show ?thesis by simp
  qed
qed

lemma select_instruments_schedule:
  "same_schedule self (snd (snd (select_instruments self cs c)))"
  by (simp add: select_instruments_def get_instruments_to_trade_def same_schedule_def Let_def
        split: prod.splits)

lemma run_clients_schedule:
  "same_schedule self (snd (run_clients self all cs))"
proof (induction cs arbitrary: self)
  case Nil
  show ?case by (simp add: same_schedule_refl)
next
  case (Cons c cs)
  obtain pp its s1 where sel: "select_instruments self all c = (pp, its, s1)"
    by (cases "select_instruments self all c") auto
  from select_instruments_schedule [of self all c] sel have a: "same_schedule self s1" by simp
  obtain e s2 where r: "run_instruments s1 c pp its = (e, s2)"
    by (cases "run_instruments s1 c pp its")
  from run_instruments_schedule [of s1 c pp its] r have b: "same_schedule s1 s2" by simp
  show ?case
  proof (cases e)
    case None
    with sel r a b Cons.IH [of s2] show ?thesis
      by (auto intro: same_schedule_trans)
  next
    case (Some x)
    with sel r a b show ?thesis by (auto intro: same_schedule_trans)
  qed
qed

lemma start_decision_timer_latched: "is_eod_squaring_off self \<Longrightarrow> latched (start_decision_timer self)"
  by (simp add: start_decision_timer_def latched_def Let_def)

lemma stop_latched: "latched self \<Longrightarrow> latched (snd (stop self))"
  by (simp add: stop_def latched_def)

lemma square_off_latched: "latched (snd (square_off_all_positions self cs))"
  by (simp add: square_off_all_positions_def stop_def latched_def Let_def)

lemma make_decision_eod: "is_eod_squaring_off self \<Longrightarrow> is_eod_squaring_off (snd (make_decision self now cs))"
proof -
  assume h: "is_eod_squaring_off self"
  obtain e s1 where r: "run_clients self cs cs = (e, s1)" by (cases "run_clients self cs cs")
  from run_clients_schedule [of self cs cs] r h have "is_eod_squaring_off s1"
    by (simp add: same_schedule_def)
  with r h show ?thesis
    by (cases e) (simp_all add: make_decision_def start_decision_timer_def Let_def)
qed

lemma make_decision_latched: "latched self \<Longrightarrow> latched (snd (make_decision self now cs))"
proof -
  assume h: "latched self"
  obtain e s1 where r: "run_clients self cs cs = (e, s1)" by (cases "run_clients self cs cs")
  from run_clients_schedule [of self cs cs] r h have l: "latched s1"
    by (simp add: same_schedule_def latched_def)
  then have "latched (start_decision_timer s1)"
    by (intro start_decision_timer_latched) (simp add: latched_def)
  with r h l show ?thesis
    by (cases e) (simp_all add: make_decision_def square_off_latched)
qed

lemma agent_step_latched: "latched self \<Longrightarrow> latched (agent_step self ev)"
proof (cases ev)
  case (TimerFires now cs)
  assume "latched self"
  with TimerFires show ?thesis by (simp add: latched_def)
next
  case StartDecisionTimer
  assume "latched self"
  then have "is_eod_squaring_off self" by (simp add: latched_def)
  with StartDecisionTimer show ?thesis by (simp add: start_decision_timer_latched)
qed (simp_all add: make_decision_latched stop_latched square_off_latched)

lemma agent_run_latched: "latched self \<Longrightarrow> latched (agent_run self evs)"
  unfolding agent_run_def
  by (induction evs arbitrary: self) (simp_all add: agent_step_latched)

lemma agent_step_eod: "is_eod_squaring_off self \<Longrightarrow> is_eod_squaring_off (agent_step self ev)"
proof (cases ev)
  case (TimerFires now cs)
  assume h: "is_eod_squaring_off self"
  from make_decision_eod [of "self\<lparr>decision_timer := Some Fired\<rparr>" now cs] h TimerFires
  show ?thesis by simp
next
  case (SquareOffAllPositions cs)
  then show ?thesis using square_off_latched [of self cs] by (simp add: latched_def)
qed (simp_all add: make_decision_eod start_decision_timer_def stop_def Let_def)

lemma agent_run_eod: "is_eod_squaring_off self \<Longrightarrow> is_eod_squaring_off (agent_run self evs)"
  unfolding agent_run_def
  by (induction evs arbitrary: self) (simp_all add: agent_step_eod)

text \<open>
  C5. A call of \<open>make_decision\<close> at or after the market close time, with the
  square-off not begun, sets \<open>is_eod_squaring_off\<close>, cancels the timer, exits all
  positions on every client and stops: no oracle is asked, no order is placed, the risk
  manager is untouched, and no timer is started. \<open>is_eod_squaring_off\<close>, once true,
  stays true through every sequence of events; \<open>start_decision_timer\<close> starts no timer
  while it is true; and from the square-off on no timer is ever waiting, so a timer event
  runs nothing.
\<close>

theorem eod_liquidation_latch:
  "(market_close_time self \<le> now \<and> \<not> is_eod_squaring_off self \<longrightarrow>
      make_decision self now cs =
        (Some (SystemExit 0),
         self\<lparr>is_eod_squaring_off := True,
              decision_timer := cancel (decision_timer self),
              calls := calls self @ map (\<lambda>c. ExitAllPositions) cs\<rparr>)
      \<and> is_eod_squaring_off (agent_run (snd (make_decision self now cs)) events)
      \<and> decision_timer (agent_run (snd (make_decision self now cs)) events) \<noteq> Some Started)
   \<and> (is_eod_squaring_off self \<longrightarrow> is_eod_squaring_off (agent_run self events))
   \<and> (is_eod_squaring_off self \<longrightarrow> decision_timer (start_decision_timer self) \<noteq> Some Started)
   \<and> (is_eod_squaring_off self \<and> decision_timer self \<noteq> Some Started \<longrightarrow>
        decision_timer (agent_run self events) \<noteq> Some Started
        \<and> agent_step self (TimerFires now' cs') = self)"
proof -
  have a: "make_decision self now cs =
        (Some (SystemExit 0),
         self\<lparr>is_eod_squaring_off := True,
              decision_timer := cancel (decision_timer self),
              calls := calls self @ map (\<lambda>c. ExitAllPositions) cs\<rparr>)"
    if "market_close_time self \<le> now" "\<not> is_eod_squaring_off self"
    using that by (simp add: make_decision_def square_off_all_positions_def stop_def Let_def)
  have b: "latched (agent_run (snd (make_decision self now cs)) events)"
    if "market_close_time self \<le> now" "\<not> is_eod_squaring_off self"
  proof -
    from a [OF that] have "latched (snd (make_decision self now cs))"
      by (simp add: latched_def)
    then show ?thesis by (rule agent_run_latched)
  qed
  have c: "latched (agent_run self events)"
    if "is_eod_squaring_off self" "decision_timer self \<noteq> Some Started"
    using that agent_run_latched [of self events] by (simp add: latched_def)
  have d: "decision_timer (start_decision_timer self) \<noteq> Some Started"
    if "is_eod_squaring_off self"
    using start_decision_timer_latched [OF that] by (simp add: latched_def)
  from a b c d show ?thesis
    by (auto simp: latched_def agent_run_eod)
qed

theorem eod_liquidation_latch_witness:
  "make_decision (configured_agent\<lparr>decision_timer := Some Started\<rparr>) 54000000000 [holding_client]
     = (Some (SystemExit 0),
        configured_agent\<lparr>is_eod_squaring_off := True, decision_timer := Some Cancelled,
                         calls := [ExitAllPositions]\<rparr>)
   \<and> agent_run
        (configured_agent\<lparr>is_eod_squaring_off := True, decision_timer := Some Cancelled,
                          calls := [ExitAllPositions]\<rparr>)
        [TimerFires 54320000000 [holding_client], StartDecisionTimer, Stop]
     = configured_agent\<lparr>is_eod_squaring_off := True, decision_timer := Some Cancelled,
                         calls := [ExitAllPositions]\<rparr>"
  using
    eod_liquidation_latch [where self = "configured_agent\<lparr>decision_timer := Some Started\<rparr>"
      and now = 54000000000 and cs = "[holding_client]"
      and events = "[TimerFires 54320000000 [holding_client], StartDecisionTimer, Stop]"
      and now' = 54320000000 and cs' = "[holding_client]"]
    eod_liquidation_latch [where self = "configured_agent\<lparr>is_eod_squaring_off := True,
        decision_timer := Some Cancelled, calls := [ExitAllPositions]\<rparr>"
      and now = 54320000000 and cs = "[holding_client]"
      and events = "[TimerFires 54320000000 [holding_client], StartDecisionTimer, Stop]"
      and now' = 54320000000 and cs' = "[holding_client]"]
  by (simp add: configured_agent_def agent_run_def make_decision_def square_off_all_positions_def
        stop_def start_decision_timer_def cancel_def Let_def)

lemma open_positions_keys:
  "fst ` set (foldl (\<lambda>d pos. if pos_quantity pos \<noteq> 0 \<and> pos_product pos = ''I''
                              then AList.update (pos_instrument_token pos) pos d else d) acc ps)
   = fst ` set acc
     \<union> pos_instrument_token ` {pos \<in> set ps. pos_quantity pos \<noteq> 0 \<and> pos_product pos = ''I''}"
proof (induction ps arbitrary: acc)
  case Nil
  show ?case by simp
next
  case (Cons p ps)
  show ?case
    by (simp only: foldl_Cons Cons.IH) (auto simp: AList.dom_update)
qed

lemma open_positions_distinct:
  "distinct (map fst acc) \<Longrightarrow>
   distinct (map fst (foldl (\<lambda>d pos. if pos_quantity pos \<noteq> 0 \<and> pos_product pos = ''I''
                              then AList.update (pos_instrument_token pos) pos d else d) acc ps))"
  by (induction ps arbitrary: acc) (simp_all add: AList.distinct_update)

lemma set_map_filter: "set (List.map_filter f xs) = {y. \<exists>x\<in>set xs. f x = Some y}"
  by (induction xs) (auto split: option.splits)

text \<open>
  C6. When the positions of the brokerage client contain an open one (quantity not 0,
  product \<open>''I''\<close>), \<open>position_present\<close> is True, the instruments of the cycle are the
  metadata found for the tokens of the open positions, each token once and those without
  metadata dropped, and the agent made no call: no candidate selection, also with
  \<open>auto_pick_stock\<close> on.
\<close>

theorem open_positions_select_instruments:
  assumes "get_positions c = Some ps"
      and "\<exists>pos\<in>set ps. pos_quantity pos \<noteq> 0 \<and> pos_product pos = ''I''"
  shows "select_instruments self cs c =
           (True,
            map InstrumentInfo
              (List.map_filter (get_instrument_info_from_instrument_key c)
                 (map fst (snd (get_portfolio_positions c)))),
            self)
         \<and> distinct (map fst (snd (get_portfolio_positions c)))
         \<and> set (fst (snd (select_instruments self cs c))) =
             InstrumentInfo `
               {info. \<exists>pos\<in>set ps. pos_quantity pos \<noteq> 0 \<and> pos_product pos = ''I''
                  \<and> get_instrument_info_from_instrument_key c (pos_instrument_token pos) = Some info}
         \<and> calls (snd (snd (select_instruments self cs c))) = calls self"
proof -
  let ?open = "snd (get_portfolio_positions c)"
  have keys: "fst ` set ?open =
      pos_instrument_token ` {pos \<in> set ps. pos_quantity pos \<noteq> 0 \<and> pos_product pos = ''I''}"
    using assms(1) open_positions_keys [of "[]" ps]
    by (simp add: get_portfolio_positions_def)
  from assms(2) keys have ne: "?open \<noteq> []" by auto
  have sel: "select_instruments self cs c =
           (True,
            map InstrumentInfo
              (List.map_filter (get_instrument_info_from_instrument_key c) (map fst ?open)),
            self)"
    using ne by (cases "get_portfolio_positions c") (simp add: select_instruments_def)
  have dist: "distinct (map fst ?open)"
    using assms(1) open_positions_distinct [of "[]" ps]
    by (simp add: get_portfolio_positions_def)
  have "set (List.map_filter (get_instrument_info_from_instrument_key c) (map fst ?open)) =
          {info. \<exists>pos\<in>set ps. pos_quantity pos \<noteq> 0 \<and> pos_product pos = ''I''
                  \<and> get_instrument_info_from_instrument_key c (pos_instrument_token pos) = Some info}"
    unfolding set_map_filter set_map keys by auto
  with sel dist show ?thesis by simp
qed

theorem open_positions_select_instruments_witness:
  "auto_pick_stock configured_agent
   \<and> select_instruments configured_agent [holding_client] holding_client
       = (True, [InstrumentInfo TCS], configured_agent)"
proof -
  have p: "get_positions holding_client = Some
         [\<lparr> pos_instrument_token = ''NSE_EQ|INE467B01029'', pos_quantity = 10, pos_product = ''I'' \<rparr>,
          \<lparr> pos_instrument_token = ''NSE_EQ|INE002A01018'', pos_quantity = 0, pos_product = ''I'' \<rparr>,
          \<lparr> pos_instrument_token = ''NSE_EQ|INE009A01021'', pos_quantity = 4, pos_product = ''D'' \<rparr>,
          \<lparr> pos_instrument_token = ''NSE_EQ|INE000000000'', pos_quantity = - 3, pos_product = ''I'' \<rparr>]"
    by (simp add: holding_client_def)
  have q: "\<exists>pos\<in>set
         [\<lparr> pos_instrument_token = ''NSE_EQ|INE467B01029'', pos_quantity = 10, pos_product = ''I'' \<rparr>,
          \<lparr> pos_instrument_token = ''NSE_EQ|INE002A01018'', pos_quantity = 0, pos_product = ''I'' \<rparr>,
          \<lparr> pos_instrument_token = ''NSE_EQ|INE009A01021'', pos_quantity = 4, pos_product = ''D'' \<rparr>,
          \<lparr> pos_instrument_token = ''NSE_EQ|INE000000000'', pos_quantity = - 3, pos_product = ''I'' \<rparr>].
         pos_quantity pos \<noteq> 0 \<and> pos_product pos = ''I''"
    by simp
  have k: "snd (get_portfolio_positions holding_client) =
       [(''NSE_EQ|INE467B01029'',
          \<lparr> pos_instrument_token = ''NSE_EQ|INE467B01029'', pos_quantity = 10, pos_product = ''I'' \<rparr>),
        (''NSE_EQ|INE000000000'',
          \<lparr> pos_instrument_token = ''NSE_EQ|INE000000000'', pos_quantity = - 3, pos_product = ''I'' \<rparr>)]"
    by (simp add: get_portfolio_positions_def holding_client_def)
  from open_positions_select_instruments [OF p q, of configured_agent "[holding_client]"]
  show ?thesis
    by (simp add: k) (simp add: holding_client_def configured_agent_def)
qed

text \<open>
  C10. When the decision is a BUY that \<open>validate_decision\<close> approves and
  \<open>current_price\<close> is missing or 0, lines 187 to 200 leave \<open>trades_today\<close> one
  higher and make no call at all: no order is placed.
\<close>

theorem approved_buy_without_price:
  assumes "dict_get d ''action'' PyNone = PyStr ''BUY''"
      and "map_of d ''current_price'' = None \<or> map_of d ''current_price'' = Some (PyNum 0)"
      and "validate_decision (risk_manager self) d pm (dict_get d ''current_price'' (PyNum 0))
             = Inr (True, rm)"
  shows "handle_decision self pm (PyDict d) =
           (None, self\<lparr>risk_manager :=
                          (risk_manager self)\<lparr>trades_today := trades_today (risk_manager self) + 1\<rparr>\<rparr>)
         \<and> calls (snd (handle_decision self pm (PyDict d))) = calls self"
proof -
  from assms(1) have ne: "d \<noteq> []" by (auto simp: dict_get_def)
  from assms(2) have cp: "dict_get d ''current_price'' (PyNum 0) = PyNum 0"
    by (auto simp: dict_get_def)
  from assms(1,3) have rm: "rm = (risk_manager self)\<lparr>trades_today := trades_today (risk_manager self) + 1\<rparr>"
    by (auto simp: validate_decision_def Let_def split: option.splits if_splits sum.splits bool.splits)
  from assms(3) ne cp rm show ?thesis
    by (simp add: handle_decision_def Let_def)
qed

theorem approved_buy_without_price_witness:
  "handle_decision configured_agent (Some []) (PyDict buy_decision_without_price) =
     (None, configured_agent\<lparr>risk_manager := configured_risk_manager\<lparr>trades_today := 1\<rparr>\<rparr>)
   \<and> calls (snd (handle_decision configured_agent (Some []) (PyDict buy_decision_without_price))) = []"
proof -
  have a: "dict_get buy_decision_without_price ''action'' PyNone = PyStr ''BUY''"
    by (simp add: buy_decision_without_price_def dict_get_def)
  have b: "map_of buy_decision_without_price ''current_price'' = None
           \<or> map_of buy_decision_without_price ''current_price'' = Some (PyNum 0)"
    by (simp add: buy_decision_without_price_def)
  have c: "validate_decision (risk_manager configured_agent) buy_decision_without_price (Some [])
             (dict_get buy_decision_without_price ''current_price'' (PyNum 0))
           = Inr (True, configured_risk_manager\<lparr>trades_today := 1\<rparr>)"
    by (simp add: validate_decision_def configured_agent_def configured_risk_manager_eq
          buy_decision_without_price_def dict_get_def)
  from approved_buy_without_price [OF a b c]
  show ?thesis by (simp add: configured_agent_def configured_risk_manager_eq)
qed

text \<open>
  C4. The code on a cycle over two instruments, the day's first, before the close. When
  the decision for the first has no \<open>action\<close>, it is still validated and counted, and
  \<^verbatim>\<open>decision['action']\<close> in \<open>execute_trade\<close> raises \<^verbatim>\<open>KeyError\<close>; when the oracle
  returned \<^verbatim>\<open>None\<close> for the first, \<^verbatim>\<open>llm_json['response']\<close> raises \<^verbatim>\<open>TypeError\<close>.
  Either way the exception leaves \<open>make_decision\<close>: the second instrument is never
  looked at and no timer is started. With a HOLD for the first, the cycle goes on to the
  second, places its order and starts the timer.
\<close>

theorem malformed_decision_aborts_cycle:
  "make_decision configured_agent 36000000000
     [flat_client (\<lambda>info. if info_trading_symbol info = ''RELIANCE''
                         then Some (PyDict decision_without_action)
                         else Some (PyDict buy_decision))]
   = (Some (KeyError ''action''),
      configured_agent
        \<lparr>risk_manager := configured_risk_manager\<lparr>trades_today := 1\<rparr>,
         calls := [AutoPickInstrumentToTrade, GenerateDecision RELIANCE,
                   SaveLlmDecision (Some (PyDict decision_without_action))]\<rparr>)
   \<and> make_decision configured_agent 36000000000
     [flat_client (\<lambda>info. if info_trading_symbol info = ''RELIANCE''
                         then None
                         else Some (PyDict buy_decision))]
   = (Some TypeError,
      configured_agent
        \<lparr>calls := [AutoPickInstrumentToTrade, GenerateDecision RELIANCE, SaveLlmDecision None]\<rparr>)
   \<and> make_decision configured_agent 36000000000
     [flat_client (\<lambda>info. if info_trading_symbol info = ''RELIANCE''
                         then Some (PyDict [(''action'', PyStr ''HOLD'')])
                         else Some (PyDict buy_decision))]
   = (None,
      configured_agent
        \<lparr>risk_manager := configured_risk_manager\<lparr>trades_today := 1\<rparr>,
         decision_timer := Some Started,
         calls := [AutoPickInstrumentToTrade, GenerateDecision RELIANCE,
                   SaveLlmDecision (Some (PyDict [(''action'', PyStr ''HOLD'')])),
                   GenerateDecision TCS, SaveLlmDecision (Some (PyDict buy_decision)),
                   PlaceOrder (PyStr ''NSE_EQ|INE467B01029'') (PyNum 1) ''BUY'' (PyStr ''MARKET'')
                     (PyNum 953.5) ''I'' ''DAY'' (PyNum 952.5) (PyNum 962)]\<rparr>)"
  by (simp add: make_decision_def configured_agent_def flat_client_def select_instruments_def
        get_portfolio_positions_def get_instruments_to_trade_def process_instrument_def
        handle_decision_def validate_decision_def execute_trade_def execute_buy_def
        execute_sell_def place_order_def start_decision_timer_def cancel_def py_or_def
        dict_get_def dict_item_def configured_risk_manager_eq
        RELIANCE_def TCS_def buy_decision_def decision_without_action_def Let_def)

end
